theory Spec2Isabelle
  imports Complex_Main
begin

text \<open>
  A shallow embedding of the SemanticSearch browser client
  (\<open>js/semantic-search-client.js\<close>): \<open>configure\<close>, \<open>search\<close> with the handlers of its
  request, \<open>_updateUrl\<close>, \<open>_getQueryFromUrl\<close>, \<open>bindSearchBox\<close> with its listeners,
  \<open>_normalizeResult\<close> and \<open>_renderResults\<close>. Values are untyped, as in the source;
  a \<open>throw\<close> is a value of a sum type; the DOM, the window and the timers of the
  browser are a state that the handlers take and return; the events the browser
  delivers are data.
\<close>

section \<open>JavaScript values\<close>

text \<open>
  The client reads JSON that has no fixed schema, so values are modelled untyped.
  \<open>JNum r\<close> is a finite number by its exact value, \<open>JNaN\<close> is NaN (the infinities
  are not represented). A string is the list of its code units, taken below 256 (a \<open>char\<close> is a
  byte); the literals of the source are ASCII. \<open>JObj kvs\<close> is an object whose own properties are
  the pairs of \<open>kvs\<close>; a name is read through \<open>map_of\<close>.
\<close>

datatype jsval =
    JUndefined
  | JNull
  | JBool bool
  | JNum rat
  | JNaN
  | JStr string
  | JArr "jsval list"
  | JObj "(string \<times> jsval) list"

text \<open>
  What a \<open>throw\<close> carries: \<open>new Error(message)\<close> of the source, the engine's
  TypeError, the SyntaxError of the request object, and \<open>Unmodelled\<close> for a conversion
  the engine performs in floating point (printing a number that is not a safe integer,
  reading a number out of a string), about which this development says nothing.
\<close>

datatype js_error = Error string | TypeError | SyntaxError | Unmodelled

definition bnd :: "js_error + 'a \<Rightarrow> ('a \<Rightarrow> js_error + 'b) \<Rightarrow> js_error + 'b" where
  "bnd m f = (case m of Inl e \<Rightarrow> Inl e | Inr v \<Rightarrow> f v)"

fun truthy :: "jsval \<Rightarrow> bool" where
  "truthy JUndefined = False"
| "truthy JNull = False"
| "truthy (JBool b) = b"
| "truthy (JNum r) = (r \<noteq> 0)"
| "truthy JNaN = False"
| "truthy (JStr s) = (s \<noteq> [])"
| "truthy (JArr xs) = True"
| "truthy (JObj kvs) = True"

text \<open>\<open>a || b\<close>, and \<open>a && b\<close> where evaluating \<open>b\<close> may throw.\<close>

definition js_or :: "jsval \<Rightarrow> jsval \<Rightarrow> jsval" where
  "js_or a b = (if truthy a then a else b)"

definition js_and :: "jsval \<Rightarrow> js_error + jsval \<Rightarrow> js_error + jsval" where
  "js_and a b = (if truthy a then b else Inr a)"

text \<open>
  \<open>v.k\<close> for the property names the client reads (results, document, metadata, title,
  url, excerpt, length, limit, minLength, debounce, showExcerpt, noResultsText,
  endpoint, readerKey): none of them but \<open>length\<close> is a member of a built-in
  prototype. Reading a property of \<open>undefined\<close> or \<open>null\<close> throws a TypeError.
\<close>

fun get_prop :: "jsval \<Rightarrow> string \<Rightarrow> js_error + jsval" where
  "get_prop JUndefined k = Inl TypeError"
| "get_prop JNull k = Inl TypeError"
| "get_prop (JObj kvs) k = Inr (case map_of kvs k of Some v \<Rightarrow> v | None \<Rightarrow> JUndefined)"
| "get_prop (JArr xs) k = Inr (if k = ''length'' then JNum (of_nat (length xs)) else JUndefined)"
| "get_prop (JStr s) k = Inr (if k = ''length'' then JNum (of_nat (length s)) else JUndefined)"
| "get_prop (JBool b) k = Inr JUndefined"
| "get_prop (JNum r) k = Inr JUndefined"
| "get_prop JNaN k = Inr JUndefined"

fun digit_char :: "nat \<Rightarrow> char" where
  "digit_char n = ''0123456789'' ! n"

fun show_nat :: "nat \<Rightarrow> string" where
  "show_nat n = (if n < 10 then [digit_char n] else show_nat (n div 10) @ [digit_char (n mod 10)])"

declare show_nat.simps [simp del]

text \<open>\<open>results[i]\<close> for a truthy \<open>results\<close> and an index \<open>i\<close> of the render loop.\<close>

fun get_index :: "jsval \<Rightarrow> nat \<Rightarrow> jsval" where
  "get_index (JArr xs) i = (if i < length xs then xs ! i else JUndefined)"
| "get_index (JStr s) i = (if i < length s then JStr [s ! i] else JUndefined)"
| "get_index (JObj kvs) i = (case map_of kvs (show_nat i) of Some v \<Rightarrow> v | None \<Rightarrow> JUndefined)"
| "get_index v i = JUndefined"

text \<open>
  The string a value becomes when it is concatenated to a string with \<open>+\<close>. A safe
  integer prints in decimal; an array prints its elements joined by commas, with
  \<open>undefined\<close> and \<open>null\<close> printed empty; an object prints as \<open>[object Object]\<close>
  unless an own property hides \<open>toString\<close>, which no JSON value can replace by a
  function, so that the conversion throws.
\<close>

fun to_str :: "jsval \<Rightarrow> js_error + string"
  and join_strs :: "jsval list \<Rightarrow> js_error + string"
  where
  "to_str JUndefined = Inr ''undefined''"
| "to_str JNull = Inr ''null''"
| "to_str (JBool b) = Inr (if b then ''true'' else ''false'')"
| "to_str (JNum r) =
     (if of_int \<lfloor>r\<rfloor> = r \<and> \<bar>r\<bar> \<le> 9007199254740992
      then Inr (if r < 0 then ''-'' @ show_nat (nat (- \<lfloor>r\<rfloor>)) else show_nat (nat \<lfloor>r\<rfloor>))
      else Inl Unmodelled)"
| "to_str JNaN = Inr ''NaN''"
| "to_str (JStr s) = Inr s"
| "to_str (JArr xs) = join_strs xs"
| "to_str (JObj kvs) =
     (if map_of kvs ''toString'' = None then Inr ''[object Object]'' else Inl TypeError)"
| "join_strs [] = Inr []"
| "join_strs (x # xs) =
     bnd (if x = JUndefined \<or> x = JNull then Inr [] else to_str x) (\<lambda>a.
     if xs = [] then Inr a
     else bnd (join_strs xs) (\<lambda>b. Inr (a @ '','' @ b)))"

section \<open>Result normalization\<close>

record normalized =
  title :: jsval
  url :: jsval
  excerpt :: jsval

text \<open>
  The expression
  \<open>(metadata && metadata.f) || (doc && doc.f) || (item && item.f) || dflt\<close>,
  which \<open>_normalizeResult\<close> writes once for each of its three fields.
\<close>

definition resolve_field :: "jsval \<Rightarrow> jsval \<Rightarrow> jsval \<Rightarrow> string \<Rightarrow> jsval \<Rightarrow> js_error + jsval" where
  "resolve_field metadata doc item f dflt =
     bnd (js_and metadata (get_prop metadata f)) (\<lambda>a.
     if truthy a then Inr a
     else bnd (js_and doc (get_prop doc f)) (\<lambda>b.
     if truthy b then Inr b
     else bnd (js_and item (get_prop item f)) (\<lambda>c.
     Inr (js_or c dflt))))"

definition normalizeResult :: "jsval \<Rightarrow> js_error + normalized" where
  "normalizeResult item =
     bnd (js_and item (get_prop item ''document'')) (\<lambda>has_doc.
     bnd (if truthy has_doc then get_prop item ''document'' else Inr item) (\<lambda>doc.
     bnd (js_and doc (get_prop doc ''metadata'')) (\<lambda>doc_meta.
     bnd (if truthy doc_meta then get_prop doc ''metadata''
          else bnd (js_and item (get_prop item ''metadata'')) (\<lambda>item_meta.
               if truthy item_meta then get_prop item ''metadata'' else Inr (JObj []))) (\<lambda>metadata.
     bnd (resolve_field metadata doc item ''title'' (JStr ''Untitled'')) (\<lambda>t.
     bnd (resolve_field metadata doc item ''url'' (JStr ''#'')) (\<lambda>u.
     bnd (resolve_field metadata doc item ''excerpt'' (JStr '''')) (\<lambda>e.
     Inr \<lparr>title = t, url = u, excerpt = e\<rparr>)))))))"

section \<open>Configuration\<close>

record config =
  endpoint :: jsval
  readerKey :: jsval

definition configure :: "config \<Rightarrow> jsval \<Rightarrow> js_error + config" where
  "configure this options =
     bnd (get_prop options ''endpoint'') (\<lambda>e.
     let this1 = this\<lparr>endpoint := js_or e (endpoint this)\<rparr> in
     bnd (get_prop options ''readerKey'') (\<lambda>k.
     Inr (this1\<lparr>readerKey := js_or k (readerKey this1)\<rparr>)))"

section \<open>Search\<close>

text \<open>
  A request handed to \<open>xhr.send\<close>. \<open>req_body\<close> is the object given to
  \<open>JSON.stringify\<close>. The query is a string, as \<open>bindSearchBox\<close> passes it.
\<close>

record request =
  req_method :: string
  req_url :: string
  req_headers :: "(string \<times> string) list"
  req_body :: jsval

datatype promise = Pending | Resolved jsval | Rejected js_error

text \<open>A promise settles once: \<open>resolve\<close> and \<open>reject\<close> on a settled promise do nothing.\<close>

definition resolve :: "promise \<Rightarrow> jsval \<Rightarrow> promise" where
  "resolve p v = (if p = Pending then Resolved v else p)"

definition reject :: "promise \<Rightarrow> js_error \<Rightarrow> promise" where
  "reject p e = (if p = Pending then Rejected e else p)"

text \<open>
  \<open>xhr.open\<close> throws a SyntaxError when the browser's URL parser refuses the URL.
  Whether it does depends on the document's base URL, so the parser is a parameter:
  \<open>parses u\<close> says that \<open>u\<close> parses.
\<close>

definition xhr_open :: "(string \<Rightarrow> bool) \<Rightarrow> string \<Rightarrow> js_error + string" where
  "xhr_open parses u = (if parses u then Inr u else Inl SyntaxError)"

text \<open>
  \<open>xhr.setRequestHeader\<close> strips the HTTP white space (TAB, LF, CR, space) at both
  ends of the value and throws a SyntaxError unless what is left is a header value:
  one without NUL, LF and CR. The two header names of the source are header names.
\<close>

definition http_whitespace :: "char \<Rightarrow> bool" where
  "http_whitespace c = (c \<in> set [CHR 0x09, CHR 0x0A, CHR 0x0D, CHR 0x20])"

definition normalize_value :: "string \<Rightarrow> string" where
  "normalize_value v = rev (dropWhile http_whitespace (rev (dropWhile http_whitespace v)))"

definition header_value :: "string \<Rightarrow> bool" where
  "header_value v = list_all (\<lambda>c. c \<notin> set [CHR 0x00, CHR 0x0A, CHR 0x0D]) v"

definition setRequestHeader ::
  "string \<Rightarrow> string \<Rightarrow> (string \<times> string) list \<Rightarrow> js_error + (string \<times> string) list" where
  "setRequestHeader name v headers =
     (let v' = normalize_value v in
      if header_value v' then Inr (headers @ [(name, v')]) else Inl SyntaxError)"

text \<open>
  The synchronous part of \<open>search\<close>: the promise as the executor leaves it and the
  requests it sent. An exception thrown in the executor rejects the promise, and
  nothing is sent.
\<close>

definition search :: "(string \<Rightarrow> bool) \<Rightarrow> config \<Rightarrow> string \<Rightarrow> jsval \<Rightarrow> promise \<times> request list" where
  "search parses self query options0 =
     (let options = js_or options0 (JObj []) in
      if \<not> truthy (endpoint self)
      then (Rejected (Error ''SemanticSearch endpoint not configured''), [])
      else
        case
          bnd (to_str (endpoint self)) (\<lambda>base.
          bnd (xhr_open parses (base @ ''/v1/search'')) (\<lambda>target.
          bnd (setRequestHeader ''Content-Type'' ''application/json'' []) (\<lambda>headers.
          bnd (if truthy (readerKey self)
               then bnd (to_str (readerKey self)) (\<lambda>k.
                    setRequestHeader ''Authorization'' (''Bearer '' @ k) headers)
               else Inr headers) (\<lambda>headers'.
          bnd (get_prop options ''limit'') (\<lambda>limit.
          Inr \<lparr>req_method = ''POST'',
               req_url = target,
               req_headers = headers',
               req_body = JObj [(''query'', JStr query), (''limit'', js_or limit (JNum 10))]\<rparr>)))))
        of Inl e \<Rightarrow> (Rejected e, [])
         | Inr r \<Rightarrow> (Pending, [r]))"

text \<open>
  The request object as the handlers read it. \<open>parsed_body\<close> is the outcome of
  \<open>JSON.parse(xhr.responseText)\<close>: \<open>None\<close> when it throws.
\<close>

record xhr =
  readyState :: nat
  status :: nat
  parsed_body :: "jsval option"

definition onreadystatechange :: "xhr \<Rightarrow> promise \<Rightarrow> promise" where
  "onreadystatechange x p =
     (if readyState x = 4 then
        (if 200 \<le> status x \<and> status x < 300 then
           (case parsed_body x of
              None \<Rightarrow> reject p (Error ''Failed to parse response'')
            | Some response \<Rightarrow>
                (case get_prop response ''results'' of
                   Inl e \<Rightarrow> reject p (Error ''Failed to parse response'')
                 | Inr r \<Rightarrow> resolve p (js_or (js_or r response) (JArr []))))
         else reject p (Error (''Search failed: '' @ show_nat (status x))))
      else p)"

definition onerror :: "promise \<Rightarrow> promise" where
  "onerror p = reject p (Error ''Network error'')"

text \<open>The events the browser delivers to one request, in the order it fires them.\<close>

datatype xhr_event = ReadyStateChange xhr | ErrorEvent

fun deliver :: "promise \<Rightarrow> xhr_event list \<Rightarrow> promise" where
  "deliver p [] = p"
| "deliver p (ReadyStateChange x # es) = deliver (onreadystatechange x p) es"
| "deliver p (ErrorEvent # es) = deliver (onerror p) es"

section \<open>Rendering\<close>

record container =
  innerHTML :: string
  display :: string

text \<open>The body of the loop of \<open>_renderResults\<close>: what one item appends to \<open>html\<close>.\<close>

definition render_item :: "jsval \<Rightarrow> jsval \<Rightarrow> string \<Rightarrow> js_error + string" where
  \<open>render_item options item html =
     bnd (normalizeResult item) (\<lambda>normalized.
     bnd (to_str (url normalized)) (\<lambda>u.
     bnd (to_str (title normalized)) (\<lambda>t.
     let html1 = html @ ''<li class="semantic-search-result-item">'';
         html2 = html1 @ ''<a href="'' @ u @ ''" class="semantic-search-result-link">'' @ t @ ''</a>''
     in
     bnd (js_and (excerpt normalized)
            (bnd (get_prop options ''showExcerpt'') (\<lambda>s. Inr (JBool (s \<noteq> JBool False))))) (\<lambda>shown.
     if truthy shown then
       (case excerpt normalized of
          JStr e \<Rightarrow>
            let shortExcerpt = take 100 e @ (if 100 < length e then ''...'' else '''')
            in Inr (html2 @ ''<p class="semantic-search-result-excerpt">'' @ shortExcerpt @ ''</p>'' @ ''</li>'')
        | _ \<Rightarrow> Inl TypeError)
     else Inr (html2 @ ''</li>'')))))\<close>

fun render_loop :: "jsval \<Rightarrow> jsval list \<Rightarrow> string \<Rightarrow> js_error + string" where
  "render_loop options [] html = Inr html"
| "render_loop options (item # rest) html =
     bnd (render_item options item html) (\<lambda>html'. render_loop options rest html')"

text \<open>
  The number a value becomes in a comparison with a number: \<open>JNum r\<close> or \<open>JNaN\<close>.
  Reading a number out of a non-empty string or array is left to the engine.
\<close>

fun to_number :: "jsval \<Rightarrow> js_error + jsval" where
  "to_number JUndefined = Inr JNaN"
| "to_number JNull = Inr (JNum 0)"
| "to_number (JBool b) = Inr (JNum (if b then 1 else 0))"
| "to_number (JNum r) = Inr (JNum r)"
| "to_number JNaN = Inr JNaN"
| "to_number (JStr s) = (if s = [] then Inr (JNum 0) else Inl Unmodelled)"
| "to_number (JArr xs) = (if xs = [] then Inr (JNum 0) else Inl Unmodelled)"
| "to_number (JObj kvs) = (if map_of kvs ''toString'' = None then Inr JNaN else Inl TypeError)"

text \<open>\<open>n < v\<close> and \<open>n >= v\<close> for a number \<open>n\<close>: both are false when \<open>v\<close> is NaN.\<close>

definition num_lt :: "rat \<Rightarrow> jsval \<Rightarrow> js_error + bool" where
  "num_lt n v = bnd (to_number v) (\<lambda>m. Inr (case m of JNum r \<Rightarrow> n < r | _ \<Rightarrow> False))"

definition num_ge :: "rat \<Rightarrow> jsval \<Rightarrow> js_error + bool" where
  "num_ge n v = bnd (to_number v) (\<lambda>m. Inr (case m of JNum r \<Rightarrow> r \<le> n | _ \<Rightarrow> False))"

text \<open>
  How many times \<open>i < results.length\<close> holds for \<open>i = 0, 1, 2, ...\<close>, by the value of
  \<open>results.length\<close>; and the items \<open>results[i]\<close> the loop visits.
\<close>

definition iterations :: "jsval \<Rightarrow> js_error + nat" where
  "iterations len =
     bnd (to_number len) (\<lambda>m.
     Inr (case m of JNum r \<Rightarrow> if r \<le> 0 then 0 else nat \<lceil>r\<rceil> | _ \<Rightarrow> 0))"

definition loop_items :: "jsval \<Rightarrow> js_error + jsval list" where
  "loop_items results =
     bnd (get_prop results ''length'') (\<lambda>len.
     bnd (iterations len) (\<lambda>n.
     Inr (map (get_index results) [0..<n])))"

definition renderResults :: "container \<Rightarrow> jsval \<Rightarrow> jsval \<Rightarrow> js_error + container" where
  \<open>renderResults container results options =
     (if \<not> truthy results \<or> get_prop results ''length'' = Inr (JNum 0) then
        bnd (get_prop options ''noResultsText'') (\<lambda>text.
        bnd (to_str (js_or text (JStr ''No results found''))) (\<lambda>shown.
        Inr (container\<lparr>innerHTML := ''<div class="semantic-search-no-results">'' @ shown @ ''</div>'',
                        display := ''block''\<rparr>)))
      else
        bnd (loop_items results) (\<lambda>items.
        bnd (render_loop options items ''<ul class="semantic-search-result-list">'') (\<lambda>html.
        Inr (container\<lparr>innerHTML := html @ ''</ul>'', display := ''block''\<rparr>))))\<close>

section \<open>The page: URL and session history\<close>

text \<open>
  A URL is what stands before its query string and the list of its query parameters.
  The window holds the URL of the current history entry, the entries behind it, and
  the URL parser of the browser as \<open>xhr.open\<close> consults it.
\<close>

record location =
  loc_base :: string
  loc_params :: "(string \<times> string) list"

record window =
  href :: location
  back_entries :: "location list"
  parses_url :: "string \<Rightarrow> bool"

text \<open>\<open>searchParams.set\<close>, \<open>searchParams.delete\<close> and \<open>searchParams.get\<close>.\<close>

fun params_set :: "string \<Rightarrow> string \<Rightarrow> (string \<times> string) list \<Rightarrow> (string \<times> string) list" where
  "params_set k v [] = [(k, v)]"
| "params_set k v (p # ps) =
     (if fst p = k then (k, v) # filter (\<lambda>p'. fst p' \<noteq> k) ps else p # params_set k v ps)"

definition params_delete :: "string \<Rightarrow> (string \<times> string) list \<Rightarrow> (string \<times> string) list" where
  "params_delete k ps = filter (\<lambda>p. fst p \<noteq> k) ps"

definition params_get :: "string \<Rightarrow> (string \<times> string) list \<Rightarrow> string option" where
  "params_get k ps = map_of ps k"

text \<open>\<open>history.replaceState\<close> rewrites the current entry; it adds none.\<close>

definition replaceState :: "location \<Rightarrow> window \<Rightarrow> window" where
  "replaceState u w = w\<lparr>href := u\<rparr>"

definition updateUrl :: "string \<Rightarrow> window \<Rightarrow> window" where
  "updateUrl query w =
     (let u = href w;
          u' = (if query \<noteq> [] then u\<lparr>loc_params := params_set ''q'' query (loc_params u)\<rparr>
                else u\<lparr>loc_params := params_delete ''q'' (loc_params u)\<rparr>)
      in replaceState u' w)"

definition getQueryFromUrl :: "window \<Rightarrow> string" where
  "getQueryFromUrl w =
     (case params_get ''q'' (loc_params (href w)) of
        None \<Rightarrow> []
      | Some v \<Rightarrow> if v \<noteq> [] then v else [])"

section \<open>Input binding\<close>

text \<open>
  \<open>String.prototype.trim\<close>: white space and line terminators are removed at both
  ends. Among the code units below 256 these are TAB, LF, VT, FF, CR, space and the
  no-break space.
\<close>

definition is_space :: "char \<Rightarrow> bool" where
  "is_space c = (c \<in> set [CHR 0x09, CHR 0x0A, CHR 0x0B, CHR 0x0C, CHR 0x0D, CHR 0x20, CHR 0xA0])"

definition trim :: "string \<Rightarrow> string" where
  "trim s = rev (dropWhile is_space (rev (dropWhile is_space s)))"

text \<open>
  The delay \<open>setTimeout\<close> takes, in milliseconds: the number is truncated, reduced to
  32 bits, and a negative delay counts as zero. Timers fire on an ideal clock.
\<close>

definition timeout_ms :: "jsval \<Rightarrow> js_error + nat" where
  "timeout_ms v =
     bnd (to_number v) (\<lambda>m.
     Inr (case m of
            JNum r \<Rightarrow>
              (let t = (if 0 \<le> r then \<lfloor>r\<rfloor> else \<lceil>r\<rceil>); w = t mod 4294967296
               in if w < 2147483648 then nat w else 0)
          | _ \<Rightarrow> 0))"

text \<open>
  The variables \<open>bindSearchBox\<close> closes over, and the state its handlers read and
  write: the client object, the window, the input's value, the result container, the
  variable \<open>debounceTimer\<close>, the browser's live timers of this binding (identifier,
  milliseconds left, the query its callback captured), and two logs: the calls of
  \<open>search\<close> (query and options) and the requests sent.
\<close>

record binding =
  b_options :: jsval
  b_minLength :: jsval
  b_debounceMs :: jsval

record bstate =
  self :: config
  win :: window
  input_value :: string
  resultContainer :: container
  debounceTimer :: "nat option"
  timers :: "(nat \<times> nat \<times> string) list"
  next_timer :: nat
  searches :: "(string \<times> jsval) list"
  network :: "request list"

definition clearTimeout :: "nat option \<Rightarrow> bstate \<Rightarrow> bstate" where
  "clearTimeout h s =
     (case h of None \<Rightarrow> s | Some i \<Rightarrow> s\<lparr>timers := filter (\<lambda>t. fst t \<noteq> i) (timers s)\<rparr>)"

text \<open>\<open>debounceTimer = setTimeout(function() { doSearch(query, false); }, ms)\<close>.\<close>

definition setTimeout :: "string \<Rightarrow> nat \<Rightarrow> bstate \<Rightarrow> bstate" where
  "setTimeout query ms s =
     s\<lparr>timers := timers s @ [(next_timer s, ms, query)],
       debounceTimer := Some (next_timer s),
       next_timer := Suc (next_timer s)\<rparr>"

definition search_failed :: "container \<Rightarrow> container" where
  \<open>search_failed c =
     c\<lparr>innerHTML := ''<div class="semantic-search-error">Search failed</div>'', display := ''block''\<rparr>\<close>

text \<open>
  The continuation \<open>.then(render).catch(failed)\<close> of a search, run once its promise
  has settled: an exception thrown while rendering reaches the \<open>catch\<close> as well.
\<close>

definition then_catch :: "binding \<Rightarrow> promise \<Rightarrow> container \<Rightarrow> container" where
  "then_catch b p c =
     (case p of
        Pending \<Rightarrow> c
      | Resolved results \<Rightarrow>
          (case renderResults c results (b_options b) of Inr c' \<Rightarrow> c' | Inl e \<Rightarrow> search_failed c)
      | Rejected e \<Rightarrow> search_failed c)"

definition doSearch :: "binding \<Rightarrow> string \<Rightarrow> bool \<Rightarrow> bstate \<Rightarrow> bstate" where
  "doSearch b query updateHistory s =
     (let s1 = (if updateHistory then s\<lparr>win := updateUrl query (win s)\<rparr> else s) in
      case get_prop (b_options b) ''limit'' of
        Inl e \<Rightarrow> s1
      | Inr l \<Rightarrow>
          (let opts = JObj [(''limit'', js_or l (JNum 10))];
               r = search (parses_url (win s1)) (self s1) query opts;
               s2 = s1\<lparr>searches := searches s1 @ [(query, opts)], network := network s1 @ snd r\<rparr>
           in s2\<lparr>resultContainer := then_catch b (fst r) (resultContainer s2)\<rparr>))"

text \<open>
  The \<open>input\<close> listener, after the user has changed the input's value to \<open>v\<close>. An
  exception in a listener ends it, with the effects it had so far.
\<close>

definition on_input :: "binding \<Rightarrow> string \<Rightarrow> bstate \<Rightarrow> bstate" where
  "on_input b v s =
     (let s0 = s\<lparr>input_value := v\<rparr>;
          query = trim (input_value s0);
          s1 = clearTimeout (debounceTimer s0) s0
      in case num_lt (of_nat (length query)) (b_minLength b) of
           Inl e \<Rightarrow> s1
         | Inr True \<Rightarrow> s1\<lparr>resultContainer := (resultContainer s1)\<lparr>innerHTML := [], display := ''none''\<rparr>\<rparr>
         | Inr False \<Rightarrow>
             (case timeout_ms (b_debounceMs b) of
                Inl e \<Rightarrow> s1
              | Inr ms \<Rightarrow> setTimeout query ms s1))"

definition on_keydown :: "binding \<Rightarrow> string \<Rightarrow> bstate \<Rightarrow> bstate" where
  "on_keydown b key s =
     (if key = ''Enter'' then
        (let query = trim (input_value s) in
         case num_ge (of_nat (length query)) (b_minLength b) of
           Inr True \<Rightarrow> doSearch b query True (clearTimeout (debounceTimer s) s)
         | _ \<Rightarrow> s)
      else s)"

text \<open>The document's \<open>click\<close> listener; \<open>inside\<close> says the target is in the input or the container.\<close>

definition on_click :: "bool \<Rightarrow> bstate \<Rightarrow> bstate" where
  "on_click inside s =
     (if \<not> inside then s\<lparr>resultContainer := (resultContainer s)\<lparr>display := ''none''\<rparr>\<rparr> else s)"

text \<open>
  \<open>ms\<close> milliseconds pass: the timers due by then fire, the earliest first, and the
  others have that much less to wait.
\<close>

definition elapse :: "binding \<Rightarrow> nat \<Rightarrow> bstate \<Rightarrow> bstate" where
  "elapse b ms s =
     (let due = filter (\<lambda>t. fst (snd t) \<le> ms) (timers s);
          waiting = filter (\<lambda>t. \<not> fst (snd t) \<le> ms) (timers s);
          s1 = s\<lparr>timers := map (\<lambda>t. (fst t, fst (snd t) - ms, snd (snd t))) waiting\<rparr>
      in fold (\<lambda>t. doSearch b (snd (snd t)) False) (sort_key (\<lambda>t. fst (snd t)) due) s1)"

datatype event =
    Input string
  | Keydown string
  | Click bool
  | Elapse nat
  | Settle promise

fun step :: "binding \<Rightarrow> event \<Rightarrow> bstate \<Rightarrow> bstate" where
  "step b (Input v) s = on_input b v s"
| "step b (Keydown key) s = on_keydown b key s"
| "step b (Click inside) s = on_click inside s"
| "step b (Elapse ms) s = elapse b ms s"
| "step b (Settle p) s = s\<lparr>resultContainer := then_catch b p (resultContainer s)\<rparr>"

fun run :: "binding \<Rightarrow> event list \<Rightarrow> bstate \<Rightarrow> bstate" where
  "run b [] s = s"
| "run b (e # es) s = run b es (step b e s)"

text \<open>
  \<open>bindSearchBox\<close> in the variant that keeps the query in the URL. \<open>input\<close> and
  \<open>container\<close> are what the selectors found: the value of the input element and the
  result container, or \<open>None\<close>. The result is \<open>Inr None\<close> when it warns and returns.
  The variant without URL state has the same \<open>input\<close> listener, no \<open>keydown\<close>
  listener and no initial search.
\<close>

definition bindSearchBox ::
  "config \<Rightarrow> window \<Rightarrow> string option \<Rightarrow> container option \<Rightarrow> jsval \<Rightarrow> js_error + (binding \<times> bstate) option" where
  "bindSearchBox this w input container options0 =
     (let options = js_or options0 (JObj []) in
      case (input, container) of
        (Some v, Some c) \<Rightarrow>
          bnd (get_prop options ''minLength'') (\<lambda>ml.
          bnd (get_prop options ''debounce'') (\<lambda>db.
          let b = \<lparr>b_options = options, b_minLength = js_or ml (JNum 2), b_debounceMs = js_or db (JNum 300)\<rparr>;
              s = \<lparr>self = this, win = w, input_value = v, resultContainer = c, debounceTimer = None,
                   timers = [], next_timer = 0, searches = [], network = []\<rparr>;
              urlQuery = getQueryFromUrl w
          in if urlQuery \<noteq> [] then
               (let s1 = s\<lparr>input_value := urlQuery\<rparr> in
                bnd (num_ge (of_nat (length urlQuery)) (b_minLength b)) (\<lambda>long.
                Inr (Some (b, if long then doSearch b urlQuery False s1 else s1))))
             else Inr (Some (b, s))))
      | _ \<Rightarrow> Inr None)"

text \<open>
  The typing of a user: each value is followed by the time that passes before the next
  event.
\<close>

fun typing :: "(string \<times> nat) list \<Rightarrow> event list" where
  "typing [] = []"
| "typing ((v, gap) # rest) = Input v # Elapse gap # typing rest"

text \<open>
  At most one timer of the binding is live, it is the one \<open>debounceTimer\<close> names, and
  no identifier is handed out twice.
\<close>

definition one_timer :: "bstate \<Rightarrow> bool" where
  "one_timer s =
     (case timers s of
        [] \<Rightarrow> True
      | [t] \<Rightarrow> debounceTimer s = Some (fst t) \<and> fst t < next_timer s
      | _ \<Rightarrow> False)"

section \<open>The specification's words\<close>

text \<open>
  \<open>fld v k\<close> is the value of \<open>v.k\<close> where it can be read and \<open>undefined\<close> where
  \<open>v\<close> is \<open>undefined\<close> or \<open>null\<close>: the statements below name properties with it.
\<close>

definition fld :: "jsval \<Rightarrow> string \<Rightarrow> jsval" where
  "fld v k = (case get_prop v k of Inr x \<Rightarrow> x | Inl e \<Rightarrow> JUndefined)"

fun first_present :: "jsval list \<Rightarrow> jsval \<Rightarrow> jsval" where
  "first_present [] dflt = dflt"
| "first_present (x # xs) dflt = (if truthy x then x else first_present xs dflt)"

definition has_doc_metadata :: "jsval \<Rightarrow> bool" where
  "has_doc_metadata item =
     (truthy (fld item ''document'') \<and> truthy (fld (fld item ''document'') ''metadata''))"

text \<open>
  The precedence of the specification (section 4.3), one field at a time:
  \<open>item.document.metadata.f\<close> if \<open>item.document\<close> exists and has metadata, else
  \<open>item.metadata.f\<close> if present, else \<open>item.document.f\<close>, else \<open>item.f\<close>, else the
  default.
\<close>

definition spec_chain :: "jsval \<Rightarrow> string \<Rightarrow> jsval \<Rightarrow> jsval" where
  "spec_chain item f dflt =
     first_present
       [if has_doc_metadata item then fld (fld (fld item ''document'') ''metadata'') f else JUndefined,
        fld (fld item ''metadata'') f,
        fld (fld item ''document'') f,
        fld item f] dflt"

definition normalize_spec :: "jsval \<Rightarrow> normalized" where
  "normalize_spec item =
     \<lparr>title = spec_chain item ''title'' (JStr ''Untitled''),
      url = spec_chain item ''url'' (JStr ''#''),
      excerpt = spec_chain item ''excerpt'' (JStr '''')\<rparr>"

text \<open>
  The precedence the code has: the metadata object is chosen once for the item, so
  \<open>item.metadata\<close> is read only where \<open>item.document\<close> has no metadata.
\<close>

definition code_chain :: "jsval \<Rightarrow> string \<Rightarrow> jsval \<Rightarrow> jsval" where
  "code_chain item f dflt =
     first_present
       [if has_doc_metadata item then fld (fld (fld item ''document'') ''metadata'') f
        else fld (fld item ''metadata'') f,
        fld (fld item ''document'') f,
        fld item f] dflt"




text \<open>
  The settings of a binding as the statements below take them: \<open>minLength\<close> is the
  number \<open>m\<close>, the debounce delay is \<open>d\<close> milliseconds, and the options are an object.
  \<open>limit_options b\<close> is the options object \<open>doSearch\<close> passes to \<open>search\<close>.
\<close>

definition bound_with :: "binding \<Rightarrow> rat \<Rightarrow> nat \<Rightarrow> bool" where
  "bound_with b m d =
     (b_minLength b = JNum m \<and> timeout_ms (b_debounceMs b) = Inr d \<and> truthy (b_options b))"

definition limit_options :: "binding \<Rightarrow> jsval" where
  "limit_options b =
     JObj [(''limit'', if truthy (fld (b_options b) ''limit'') then fld (b_options b) ''limit''
                       else JNum 10)]"

text \<open>
  A page to run the binding on: a client with an endpoint, a URL without query, a
  browser that parses the URL of that endpoint's search, an empty hidden container.
\<close>

definition example_config :: config where
  "example_config = \<lparr>endpoint = JStr ''https://search.example'', readerKey = JUndefined\<rparr>"

definition example_window :: window where
  "example_window =
     \<lparr>href = \<lparr>loc_base = ''https://site.example/'', loc_params = []\<rparr>, back_entries = [],
      parses_url = (\<lambda>u. u = ''https://search.example/v1/search'')\<rparr>"

definition example_container :: container where
  "example_container = \<lparr>innerHTML = [], display = ''none''\<rparr>"

section \<open>Reading properties\<close>

lemma truthy_get_prop: "truthy v \<Longrightarrow> get_prop v k = Inr (fld v k)"
  by (cases v) (simp_all add: fld_def)

lemma get_prop_fld: "v \<noteq> JUndefined \<Longrightarrow> v \<noteq> JNull \<Longrightarrow> get_prop v k = Inr (fld v k)"
  by (cases v) (simp_all add: fld_def)

lemma falsy_fld: "\<not> truthy v \<Longrightarrow> \<not> truthy (fld v k)"
  by (cases v) (simp_all add: fld_def)

lemma js_and_get_prop: "js_and v (get_prop v k) = Inr (if truthy v then fld v k else v)"
  by (simp add: js_and_def truthy_get_prop)

lemma fld_empty_obj: "fld (JObj []) k = JUndefined"
  by (simp add: fld_def)

section \<open>Normalization: the precedence of the fields\<close>

lemma resolve_field_eq:
  "resolve_field m d i f dflt = Inr (first_present [fld m f, fld d f, fld i f] dflt)"
  using falsy_fld[of m f] falsy_fld[of d f] falsy_fld[of i f]
  by (auto simp add: resolve_field_def bnd_def js_and_get_prop js_or_def)

lemma normalizeResult_parts:
  "normalizeResult item =
     (let doc = (if truthy (fld item ''document'') then fld item ''document'' else item);
          metadata = (if truthy (fld doc ''metadata'') then fld doc ''metadata''
                      else if truthy (fld item ''metadata'') then fld item ''metadata'' else JObj [])
      in Inr \<lparr>title = first_present [fld metadata ''title'', fld doc ''title'', fld item ''title''] (JStr ''Untitled''),
              url = first_present [fld metadata ''url'', fld doc ''url'', fld item ''url''] (JStr ''#''),
              excerpt = first_present [fld metadata ''excerpt'', fld doc ''excerpt'', fld item ''excerpt''] (JStr '''')\<rparr>)"
  unfolding normalizeResult_def resolve_field_eq js_and_get_prop Let_def
  using falsy_fld[of item "''document''"] falsy_fld[of item "''metadata''"]
  by (auto simp add: bnd_def truthy_get_prop simp del: first_present.simps)

lemma chain_eq:
  "(let doc = (if truthy (fld item ''document'') then fld item ''document'' else item);
        metadata = (if truthy (fld doc ''metadata'') then fld doc ''metadata''
                    else if truthy (fld item ''metadata'') then fld item ''metadata'' else JObj [])
    in first_present [fld metadata f, fld doc f, fld item f] dflt) = code_chain item f dflt"
  using falsy_fld[of "fld item ''document''" f] falsy_fld[of "fld item ''metadata''" f]
    falsy_fld[of "fld item ''document''" "''metadata''"]
  by (auto simp add: Let_def code_chain_def has_doc_metadata_def fld_empty_obj)

lemma normalizeResult_code_chain:
  "normalizeResult item =
     Inr \<lparr>title = code_chain item ''title'' (JStr ''Untitled''),
          url = code_chain item ''url'' (JStr ''#''),
          excerpt = code_chain item ''excerpt'' (JStr '''')\<rparr>"
  unfolding normalizeResult_parts chain_eq[symmetric] by (simp add: Let_def)

lemma spec_chain_agrees:
  "\<not> (has_doc_metadata item \<and> truthy (fld item ''metadata'')) \<Longrightarrow>
   spec_chain item f dflt = code_chain item f dflt"
  using falsy_fld[of "fld item ''metadata''" f]
  by (auto simp add: spec_chain_def code_chain_def)

text \<open>
  Claim C2, as amended. For every item \<open>_normalizeResult\<close> returns, without throwing,
  the record whose three fields are resolved one by one along the chain:
  \<open>item.document.metadata.f\<close> where \<open>item.document\<close> exists and has metadata, and
  \<open>item.metadata.f\<close> only where it has none; else \<open>item.document.f\<close>; else
  \<open>item.f\<close>; else the default (Untitled, #, the empty string). A value counts as
  present when it is truthy. Wherever \<open>item.document.metadata\<close> and \<open>item.metadata\<close>
  do not both exist this is the chain of the specification; and a truthy
  \<open>item.document.metadata.title\<close> wins over every other title.
\<close>

theorem normalize_precedence:
  "normalizeResult item =
     Inr \<lparr>title = code_chain item ''title'' (JStr ''Untitled''),
          url = code_chain item ''url'' (JStr ''#''),
          excerpt = code_chain item ''excerpt'' (JStr '''')\<rparr>
   \<and> (\<not> (has_doc_metadata item \<and> truthy (fld item ''metadata'')) \<longrightarrow>
        normalizeResult item = Inr (normalize_spec item))
   \<and> (truthy (fld (fld (fld item ''document'') ''metadata'') ''title'') \<longrightarrow>
        code_chain item ''title'' (JStr ''Untitled'') =
          fld (fld (fld item ''document'') ''metadata'') ''title'')"
proof (intro conjI impI)
  show c: "normalizeResult item =
     Inr \<lparr>title = code_chain item ''title'' (JStr ''Untitled''),
          url = code_chain item ''url'' (JStr ''#''),
          excerpt = code_chain item ''excerpt'' (JStr '''')\<rparr>"
    by (rule normalizeResult_code_chain)
  show "normalizeResult item = Inr (normalize_spec item)"
    if "\<not> (has_doc_metadata item \<and> truthy (fld item ''metadata''))"
    using that by (simp add: c normalize_spec_def spec_chain_agrees)
  assume t: "truthy (fld (fld (fld item ''document'') ''metadata'') ''title'')"
  have "has_doc_metadata item"
    using t falsy_fld[of "fld (fld item ''document'') ''metadata''" "''title''"]
      falsy_fld[of "fld item ''document''" "''metadata''"]
    by (auto simp add: has_doc_metadata_def)
  then show "code_chain item ''title'' (JStr ''Untitled'') =
      fld (fld (fld item ''document'') ''metadata'') ''title''"
    using t by (simp add: code_chain_def)
qed

text \<open>
  The nested title wins over the flat one, while the url of the same item comes from
  the flat field.
\<close>

theorem normalize_precedence_witness:
  "normalizeResult
     (JObj [(''document'', JObj [(''metadata'', JObj [(''title'', JStr ''Nested'')])]),
            (''title'', JStr ''Flat''), (''url'', JStr ''/flat'')])
   = Inr \<lparr>title = JStr ''Nested'', url = JStr ''/flat'', excerpt = JStr ''''\<rparr>"
  using normalize_precedence
    [of "JObj [(''document'', JObj [(''metadata'', JObj [(''title'', JStr ''Nested'')])]),
               (''title'', JStr ''Flat''), (''url'', JStr ''/flat'')]"]
  by (simp add: code_chain_def has_doc_metadata_def fld_def)

text \<open>
  The claim as stated fails on an item whose \<open>document.metadata\<close> has no title while
  its own \<open>metadata\<close> has one: the chain of the specification finds that title, the
  code never reads it.
\<close>

theorem normalize_precedence_counterexample:
  "title (normalize_spec
      (JObj [(''document'', JObj [(''metadata'', JObj [(''url'', JStr ''/a'')])]),
             (''metadata'', JObj [(''title'', JStr ''T'')])])) = JStr ''T''
   \<and> normalizeResult
      (JObj [(''document'', JObj [(''metadata'', JObj [(''url'', JStr ''/a'')])]),
             (''metadata'', JObj [(''title'', JStr ''T'')])])
     = Inr \<lparr>title = JStr ''Untitled'', url = JStr ''/a'', excerpt = JStr ''''\<rparr>"
  by (simp add: normalize_spec_def spec_chain_def has_doc_metadata_def fld_def
      normalizeResult_def resolve_field_def bnd_def js_and_def js_or_def)

section \<open>Normalization and rendering of malformed items\<close>





lemma map_get_index: "map (get_index (JArr xs)) [0..<length xs] = xs"
proof -
  have "map (get_index (JArr xs)) [0..<length xs] = map ((!) xs) [0..<length xs]"
    by (rule map_cong) simp_all
  then show ?thesis by (simp add: map_nth)
qed

lemma loop_items_array: "loop_items (JArr xs) = Inr xs"
proof -
  have "iterations (JNum (of_nat (length xs))) = Inr (length xs)"
    by (simp add: iterations_def bnd_def)
  then show ?thesis
    by (simp add: loop_items_def bnd_def map_get_index)
qed

lemma renderResults_array:
  \<open>xs \<noteq> [] \<Longrightarrow>
   renderResults c (JArr xs) options =
     bnd (render_loop options xs ''<ul class="semantic-search-result-list">'') (\<lambda>html.
       Inr (c\<lparr>innerHTML := html @ ''</ul>'', display := ''block''\<rparr>))\<close>
  by (simp add: renderResults_def loop_items_array bnd_def)




section \<open>Excerpts\<close>

text \<open>
  What the loop appends does not depend on what \<open>html\<close> holds already, and the loop
  over a list runs over its parts in turn.
\<close>

lemma render_item_prefix:
  "render_item options item html =
     bnd (render_item options item []) (\<lambda>entry. Inr (html @ entry))"
  by (auto simp add: render_item_def bnd_def Let_def split: sum.splits jsval.splits)

lemma render_loop_prefix:
  "render_loop options items html =
     bnd (render_loop options items []) (\<lambda>entries. Inr (html @ entries))"
proof (induction items arbitrary: html)
  case Nil
  then show ?case by (simp add: bnd_def)
next
  case (Cons item items)
  show ?case
  proof (cases "render_item options item []")
    case (Inl err)
    then show ?thesis
      using render_item_prefix[of options item html] by (simp add: bnd_def)
  next
    case (Inr entry)
    then have h: "render_item options item html = Inr (html @ entry)"
      using render_item_prefix[of options item html] by (simp add: bnd_def)
    show ?thesis
      using Cons.IH[of "html @ entry"] Cons.IH[of entry] Inr h
      by (auto simp add: bnd_def split: sum.splits)
  qed
qed

lemma render_loop_append:
  "render_loop options (xs @ ys) html =
     bnd (render_loop options xs html) (\<lambda>html'. render_loop options ys html')"
  by (induction xs arbitrary: html) (auto simp add: bnd_def split: sum.splits)

lemma render_item_excerpt:
  assumes "normalizeResult item = Inr n" and "excerpt n = JStr e" and "e \<noteq> []"
    and "get_prop options ''showExcerpt'' = Inr s" and "s \<noteq> JBool False"
    and "to_str (url n) = Inr u" and "to_str (title n) = Inr t"
  shows \<open>render_item options item html =
           Inr (html @ ''<li class="semantic-search-result-item">''
                @ ''<a href="'' @ u @ ''" class="semantic-search-result-link">'' @ t @ ''</a>''
                @ ''<p class="semantic-search-result-excerpt">''
                @ (if 100 < length e then take 100 e @ ''...'' else e)
                @ ''</p></li>'')\<close>
  using assms by (simp add: render_item_def bnd_def js_and_def)

text \<open>
  Claim C5. Take a result list in which one item has a non-empty string as its
  excerpt, with \<open>showExcerpt\<close> not \<open>false\<close>, and whose other items render. Then
  \<open>_renderResults\<close> shows the container with the list, and in it, between the entries
  of the items before and after, the entry of that item: its link, and the excerpt
  paragraph, which holds the first 100 characters of the excerpt followed by \<open>...\<close>
  when the excerpt has more than 100 characters, and the excerpt itself, with no
  ellipsis, otherwise.
\<close>

theorem excerpt_truncation:
  assumes "normalizeResult item = Inr n" and "excerpt n = JStr e" and "e \<noteq> []"
    and "get_prop options ''showExcerpt'' = Inr s" and "s \<noteq> JBool False"
    and "to_str (url n) = Inr u" and "to_str (title n) = Inr t"
    and "render_loop options earlier [] = Inr a" and "render_loop options later [] = Inr b"
  shows \<open>renderResults c (JArr (earlier @ item # later)) options =
           Inr (c\<lparr>innerHTML := ''<ul class="semantic-search-result-list">'' @ a
                   @ ''<li class="semantic-search-result-item">''
                   @ ''<a href="'' @ u @ ''" class="semantic-search-result-link">'' @ t @ ''</a>''
                   @ ''<p class="semantic-search-result-excerpt">''
                   @ (if 100 < length e then take 100 e @ ''...'' else e)
                   @ ''</p></li>'' @ b @ ''</ul>'',
                 display := ''block''\<rparr>)\<close>
proof -
  let ?ul = \<open>''<ul class="semantic-search-result-list">''\<close>
  let ?entry = \<open>''<li class="semantic-search-result-item">''
      @ ''<a href="'' @ u @ ''" class="semantic-search-result-link">'' @ t @ ''</a>''
      @ ''<p class="semantic-search-result-excerpt">''
      @ (if 100 < length e then take 100 e @ ''...'' else e) @ ''</p></li>''\<close>
  have 1: "render_loop options earlier ?ul = Inr (?ul @ a)"
    using render_loop_prefix[of options earlier ?ul] assms(8) by (simp add: bnd_def)
  have 2: "render_item options item (?ul @ a) = Inr ((?ul @ a) @ ?entry)"
    using render_item_excerpt[OF assms(1-7), of "?ul @ a"] by simp
  have 3: "render_loop options later ((?ul @ a) @ ?entry) = Inr (((?ul @ a) @ ?entry) @ b)"
    using render_loop_prefix[of options later "(?ul @ a) @ ?entry"] assms(9) by (simp add: bnd_def)
  have "render_loop options (earlier @ item # later) ?ul = Inr (((?ul @ a) @ ?entry) @ b)"
    unfolding render_loop_append render_loop.simps 1 using 2 3 by (simp only: bnd_def sum.case)
  then show ?thesis
    by (simp add: renderResults_array bnd_def)
qed

text \<open>A list of two results: an excerpt of 150 characters and one of 90.\<close>

theorem excerpt_truncation_witness:
  \<open>renderResults \<lparr>innerHTML = '''', display = ''none''\<rparr>
     (JArr [JObj [(''title'', JStr ''A''), (''url'', JStr ''/a''),
                  (''excerpt'', JStr (replicate 150 CHR ''x''))],
            JObj [(''title'', JStr ''B''), (''url'', JStr ''/b''),
                  (''excerpt'', JStr (replicate 90 CHR ''y''))]]) (JObj [])
   = Inr \<lparr>innerHTML = ''<ul class="semantic-search-result-list">''
            @ ''<li class="semantic-search-result-item"><a href="/a" class="semantic-search-result-link">A</a>''
            @ ''<p class="semantic-search-result-excerpt">'' @ replicate 100 CHR ''x'' @ ''...</p></li>''
            @ ''<li class="semantic-search-result-item"><a href="/b" class="semantic-search-result-link">B</a>''
            @ ''<p class="semantic-search-result-excerpt">'' @ replicate 90 CHR ''y'' @ ''</p></li>''
            @ ''</ul>'',
          display = ''block''\<rparr>\<close>
proof -
  let ?x = "JObj [(''title'', JStr ''A''), (''url'', JStr ''/a''),
                  (''excerpt'', JStr (replicate 150 CHR ''x''))]"
  let ?y = "JObj [(''title'', JStr ''B''), (''url'', JStr ''/b''),
                  (''excerpt'', JStr (replicate 90 CHR ''y''))]"
  have nx: "normalizeResult ?x
      = Inr \<lparr>title = JStr ''A'', url = JStr ''/a'', excerpt = JStr (replicate 150 CHR ''x'')\<rparr>"
    by (simp add: normalizeResult_code_chain code_chain_def has_doc_metadata_def fld_def)
  have ny: "normalizeResult ?y
      = Inr \<lparr>title = JStr ''B'', url = JStr ''/b'', excerpt = JStr (replicate 90 CHR ''y'')\<rparr>"
    by (simp add: normalizeResult_code_chain code_chain_def has_doc_metadata_def fld_def)
  have y: \<open>render_loop (JObj []) [?y] [] =
      Inr (''<li class="semantic-search-result-item"><a href="/b" class="semantic-search-result-link">B</a>''
           @ ''<p class="semantic-search-result-excerpt">'' @ replicate 90 CHR ''y'' @ ''</p></li>'')\<close>
    using render_item_excerpt[OF ny, of "replicate 90 CHR ''y''" "JObj []" JUndefined "''/b''" "''B''" "[]"]
    by (simp add: bnd_def)
  have e: "render_loop (JObj []) [] [] = Inr []" by simp
  show ?thesis
    using excerpt_truncation[OF nx _ _ _ _ _ _ e y, of "replicate 150 CHR ''x''" JUndefined
        "''/a''" "''A''" "\<lparr>innerHTML = '''', display = ''none''\<rparr>"]
    by simp
qed

section \<open>What a search resolves with\<close>

text \<open>
  Claim C1, as amended. For a response with a status in [200, 300) whose body parses:
  a body with a truthy \<open>results\<close> field resolves the search with exactly that
  \<open>results\<close> value, so a body with a \<open>results\<close> array resolves it with that array;
  a bare array resolves it with that array; any other truthy body (one without a
  truthy \<open>results\<close>: an object, a number, a string, \<open>true\<close>) resolves it with the
  body itself; and the bodies \<open>false\<close>, \<open>0\<close> and the empty string resolve it with
  an empty list.
\<close>

theorem search_success_result:
  assumes "readyState x = 4" and "200 \<le> status x" and "status x < 300"
    and "parsed_body x = Some body"
  shows "(truthy (fld body ''results'') \<longrightarrow>
            onreadystatechange x Pending = Resolved (fld body ''results''))
       \<and> (\<forall>kvs rs. body = JObj kvs \<and> map_of kvs ''results'' = Some (JArr rs) \<longrightarrow>
            onreadystatechange x Pending = Resolved (JArr rs))
       \<and> (\<forall>xs. body = JArr xs \<longrightarrow> onreadystatechange x Pending = Resolved (JArr xs))
       \<and> (truthy body \<and> \<not> truthy (fld body ''results'') \<longrightarrow>
            onreadystatechange x Pending = Resolved body)
       \<and> (body = JBool False \<or> body = JNum 0 \<or> body = JStr [] \<longrightarrow>
            onreadystatechange x Pending = Resolved (JArr []))"
proof -
  have r: "truthy body \<Longrightarrow> onreadystatechange x Pending =
      Resolved (if truthy (fld body ''results'') then fld body ''results'' else body)"
    using assms by (simp add: onreadystatechange_def resolve_def js_or_def truthy_get_prop)
  have t: "truthy (fld body ''results'') \<Longrightarrow> truthy body"
    using falsy_fld[of body "''results''"] by blast
  have f: "body = JBool False \<or> body = JNum 0 \<or> body = JStr [] \<Longrightarrow>
      onreadystatechange x Pending = Resolved (JArr [])"
    using assms by (auto simp add: onreadystatechange_def resolve_def js_or_def)
  show ?thesis
    using r t f by (auto simp add: fld_def)
qed

text \<open>
  A \<open>results\<close> array beside another field, a \<open>results\<close> that is a string, an empty
  bare array, a number, and 0.
\<close>

theorem search_success_result_witness:
  "onreadystatechange \<lparr>readyState = 4, status = 200,
      parsed_body = Some (JObj [(''results'', JArr [JStr ''a'']), (''total'', JNum 1)])\<rparr> Pending
     = Resolved (JArr [JStr ''a''])
   \<and> onreadystatechange \<lparr>readyState = 4, status = 200,
      parsed_body = Some (JObj [(''results'', JStr ''abc'')])\<rparr> Pending
     = Resolved (JStr ''abc'')
   \<and> onreadystatechange \<lparr>readyState = 4, status = 204, parsed_body = Some (JArr [])\<rparr> Pending
     = Resolved (JArr [])
   \<and> onreadystatechange \<lparr>readyState = 4, status = 200, parsed_body = Some (JNum 7)\<rparr> Pending
     = Resolved (JNum 7)
   \<and> onreadystatechange \<lparr>readyState = 4, status = 299, parsed_body = Some (JNum 0)\<rparr> Pending
     = Resolved (JArr [])"
  using search_success_result[of "\<lparr>readyState = 4, status = 200,
      parsed_body = Some (JObj [(''results'', JArr [JStr ''a'']), (''total'', JNum 1)])\<rparr>"
      "JObj [(''results'', JArr [JStr ''a'']), (''total'', JNum 1)]"]
    search_success_result[of "\<lparr>readyState = 4, status = 200,
      parsed_body = Some (JObj [(''results'', JStr ''abc'')])\<rparr>" "JObj [(''results'', JStr ''abc'')]"]
    search_success_result[of "\<lparr>readyState = 4, status = 204, parsed_body = Some (JArr [])\<rparr>" "JArr []"]
    search_success_result[of "\<lparr>readyState = 4, status = 200, parsed_body = Some (JNum 7)\<rparr>" "JNum 7"]
    search_success_result[of "\<lparr>readyState = 4, status = 299, parsed_body = Some (JNum 0)\<rparr>" "JNum 0"]
  by (simp add: fld_def)

text \<open>
  The claim as stated fails on a body of another shape: an object without \<open>results\<close>
  resolves the search with that object, not with an empty list.
\<close>

theorem search_other_shape_counterexample:
  "onreadystatechange \<lparr>readyState = 4, status = 200,
      parsed_body = Some (JObj [(''foo'', JNum 1)])\<rparr> Pending
     = Resolved (JObj [(''foo'', JNum 1)])
   \<and> Resolved (JObj [(''foo'', JNum 1)]) \<noteq> Resolved (JArr [])"
  by (simp add: onreadystatechange_def resolve_def js_or_def)

text \<open>
  A body of \<open>null\<close> parses, but reading its \<open>results\<close> throws inside the \<open>try\<close>,
  and the search is rejected as if the body had not parsed.
\<close>

lemma null_body_rejected:
  "readyState x = 4 \<Longrightarrow> 200 \<le> status x \<Longrightarrow> status x < 300 \<Longrightarrow> parsed_body x = Some JNull \<Longrightarrow>
   onreadystatechange x Pending = Rejected (Error ''Failed to parse response'')"
  by (simp add: onreadystatechange_def reject_def)

section \<open>How a search fails\<close>

lemma search_without_endpoint:
  "\<not> truthy (endpoint cfg) \<Longrightarrow>
   search parses cfg query options =
     (Rejected (Error ''SemanticSearch endpoint not configured''), [])"
  by (simp add: search_def Let_def)

lemma http_error_status:
  "readyState x = 4 \<Longrightarrow> \<not> (200 \<le> status x \<and> status x < 300) \<Longrightarrow>
   onreadystatechange x Pending = Rejected (Error (''Search failed: '' @ show_nat (status x)))"
  by (auto simp add: onreadystatechange_def reject_def)

lemma onerror_pending: "onerror Pending = Rejected (Error ''Network error'')"
  by (simp add: onerror_def reject_def)

text \<open>
  Claim C6. Without an endpoint the search is rejected at once and sends nothing
  (\<open>search_without_endpoint\<close>), and a status outside [200, 300) rejects it with the
  error that carries the status (\<open>http_error_status\<close>). A transport failure is meant
  to reject it with the network error, and \<open>onerror\<close> does so on a pending promise
  (\<open>onerror_pending\<close>). But on a transport failure a browser first sets
  \<open>readyState\<close> to 4 with status 0 and fires \<open>readystatechange\<close>, and fires \<open>error\<close>
  only then (the request error steps of the XMLHttpRequest standard): the first
  handler has already rejected the promise with the status error for 0, and the
  network error is lost.
\<close>

theorem network_failure_reports_status:
  "deliver Pending [ReadyStateChange \<lparr>readyState = 4, status = 0, parsed_body = None\<rparr>, ErrorEvent]
     = Rejected (Error ''Search failed: 0'')
   \<and> Rejected (Error ''Search failed: 0'') \<noteq> Rejected (Error ''Network error'')"
  by (simp add: onreadystatechange_def onerror_def reject_def show_nat.simps)

section \<open>The body of a search request\<close>

lemma get_prop_options_limit:
  "get_prop (js_or options (JObj [])) ''limit'' =
     Inr (if truthy options then fld options ''limit'' else JUndefined)"
  by (simp add: js_or_def truthy_get_prop fld_empty_obj)

lemma limit_or_ten:
  "js_or (if truthy options then fld options ''limit'' else JUndefined) (JNum 10) =
     (if truthy (fld options ''limit'') then fld options ''limit'' else JNum 10)"
  using falsy_fld[of options "''limit''"] by (auto simp add: js_or_def)

lemma content_type_header:
  "setRequestHeader ''Content-Type'' ''application/json'' [] =
     Inr [(''Content-Type'', ''application/json'')]"
  by (simp add: setRequestHeader_def normalize_value_def http_whitespace_def header_value_def)

lemma search_eq:
  "search parses cfg query options =
     (if \<not> truthy (endpoint cfg)
      then (Rejected (Error ''SemanticSearch endpoint not configured''), [])
      else
        case
          bnd (to_str (endpoint cfg)) (\<lambda>base.
          bnd (xhr_open parses (base @ ''/v1/search'')) (\<lambda>target.
          bnd (if truthy (readerKey cfg)
               then bnd (to_str (readerKey cfg)) (\<lambda>k.
                    setRequestHeader ''Authorization'' (''Bearer '' @ k)
                      [(''Content-Type'', ''application/json'')])
               else Inr [(''Content-Type'', ''application/json'')]) (\<lambda>headers.
          Inr \<lparr>req_method = ''POST'',
               req_url = target,
               req_headers = headers,
               req_body = JObj [(''query'', JStr query),
                 (''limit'', if truthy (fld options ''limit'') then fld options ''limit'' else JNum 10)]\<rparr>)))
        of Inl e \<Rightarrow> (Rejected e, [])
         | Inr r \<Rightarrow> (Pending, [r]))"
  unfolding search_def Let_def get_prop_options_limit content_type_header
  by (simp add: bnd_def limit_or_ten del: to_str.simps)

text \<open>
  An endpoint whose search URL the browser does not parse, and a reader key that makes
  no header value: the search is rejected and nothing is sent.
\<close>

lemma search_unparsable:
  "endpoint cfg = JStr e \<Longrightarrow> e \<noteq> [] \<Longrightarrow> \<not> parses (e @ ''/v1/search'') \<Longrightarrow>
   search parses cfg query options = (Rejected SyntaxError, [])"
  by (simp add: search_eq bnd_def xhr_open_def)

lemma search_bad_reader_key:
  "endpoint cfg = JStr e \<Longrightarrow> e \<noteq> [] \<Longrightarrow> parses (e @ ''/v1/search'') \<Longrightarrow>
   readerKey cfg = JStr k \<Longrightarrow> k \<noteq> [] \<Longrightarrow> \<not> header_value (normalize_value (''Bearer '' @ k)) \<Longrightarrow>
   search parses cfg query options = (Rejected SyntaxError, [])"
  by (simp add: search_eq bnd_def xhr_open_def setRequestHeader_def Let_def)

text \<open>
  Claim C10. Every request a call of \<open>search\<close> sends has a body with exactly the
  fields \<open>query\<close> and \<open>limit\<close>: the query is the argument as it was passed, and the
  limit is \<open>options.limit\<close> where that is truthy and 10 otherwise, so a limit of 0
  and a call without options both send 10. The call sends exactly one request when
  the endpoint is a non-empty string whose search URL the browser parses and the
  reader key is absent or a string that makes a header value.
\<close>

theorem search_body:
  "(\<forall>r \<in> set (snd (search parses cfg query options)).
      req_body r = JObj [(''query'', JStr query),
                         (''limit'', if truthy (fld options ''limit'') then fld options ''limit''
                                     else JNum 10)])
   \<and> (\<forall>e. endpoint cfg = JStr e \<and> e \<noteq> [] \<and> parses (e @ ''/v1/search'') \<and>
           (readerKey cfg = JUndefined \<or>
            (\<exists>k. readerKey cfg = JStr k \<and> header_value (normalize_value (''Bearer '' @ k)))) \<longrightarrow>
        length (snd (search parses cfg query options)) = 1)"
proof (intro conjI ballI allI impI)
  fix r assume "r \<in> set (snd (search parses cfg query options))"
  then show "req_body r = JObj [(''query'', JStr query),
      (''limit'', if truthy (fld options ''limit'') then fld options ''limit'' else JNum 10)]"
    by (auto simp add: search_eq bnd_def split: if_splits sum.splits)
next
  fix e assume "endpoint cfg = JStr e \<and> e \<noteq> [] \<and> parses (e @ ''/v1/search'') \<and>
           (readerKey cfg = JUndefined \<or>
            (\<exists>k. readerKey cfg = JStr k \<and> header_value (normalize_value (''Bearer '' @ k))))"
  then show "length (snd (search parses cfg query options)) = 1"
    by (auto simp add: search_eq bnd_def xhr_open_def setRequestHeader_def Let_def)
qed

text \<open>
  A limit of 0, no options at all, and a limit of 25, in a browser that parses
  \<open>http://h/v1/search\<close> and no other URL.
\<close>

theorem search_body_witness:
  "snd (search (\<lambda>u. u = ''http://h/v1/search'')
          \<lparr>endpoint = JStr ''http://h'', readerKey = JStr ''key''\<rparr> ''cats''
          (JObj [(''limit'', JNum 0)]))
     = [\<lparr>req_method = ''POST'', req_url = ''http://h/v1/search'',
         req_headers = [(''Content-Type'', ''application/json''), (''Authorization'', ''Bearer key'')],
         req_body = JObj [(''query'', JStr ''cats''), (''limit'', JNum 10)]\<rparr>]
   \<and> map req_body (snd (search (\<lambda>u. u = ''http://h/v1/search'')
          \<lparr>endpoint = JStr ''http://h'', readerKey = JUndefined\<rparr> ''cats'' JUndefined))
     = [JObj [(''query'', JStr ''cats''), (''limit'', JNum 10)]]
   \<and> map req_body (snd (search (\<lambda>u. u = ''http://h/v1/search'')
          \<lparr>endpoint = JStr ''http://h'', readerKey = JUndefined\<rparr> '' cats''
          (JObj [(''limit'', JNum 25)])))
     = [JObj [(''query'', JStr '' cats''), (''limit'', JNum 25)]]"
proof -
  let ?p = "\<lambda>u. u = ''http://h/v1/search''"
  let ?a = "search ?p \<lparr>endpoint = JStr ''http://h'', readerKey = JStr ''key''\<rparr> ''cats'' (JObj [(''limit'', JNum 0)])"
  let ?b = "search ?p \<lparr>endpoint = JStr ''http://h'', readerKey = JUndefined\<rparr> ''cats'' JUndefined"
  let ?c = "search ?p \<lparr>endpoint = JStr ''http://h'', readerKey = JUndefined\<rparr> '' cats'' (JObj [(''limit'', JNum 25)])"
  have a: "snd ?a = [\<lparr>req_method = ''POST'', req_url = ''http://h/v1/search'',
         req_headers = [(''Content-Type'', ''application/json''), (''Authorization'', ''Bearer key'')],
         req_body = JObj [(''query'', JStr ''cats''), (''limit'', JNum 10)]\<rparr>]"
    by (simp add: search_eq bnd_def xhr_open_def setRequestHeader_def normalize_value_def
        http_whitespace_def header_value_def fld_def)
  have "length (snd ?b) = 1"
    by (rule search_body[THEN conjunct2, rule_format, where e = "''http://h''"]) simp
  moreover have "length (snd ?c) = 1"
    by (rule search_body[THEN conjunct2, rule_format, where e = "''http://h''"]) simp
  ultimately obtain rb rc where b: "snd ?b = [rb]" and c: "snd ?c = [rc]"
    by (auto simp add: length_Suc_conv)
  have "req_body rb = JObj [(''query'', JStr ''cats''), (''limit'', JNum 10)]"
    using search_body[THEN conjunct1, of ?p "\<lparr>endpoint = JStr ''http://h'', readerKey = JUndefined\<rparr>"
        "''cats''" JUndefined] b
    by (simp add: fld_def)
  moreover have "req_body rc = JObj [(''query'', JStr '' cats''), (''limit'', JNum 25)]"
    using search_body[THEN conjunct1, of ?p "\<lparr>endpoint = JStr ''http://h'', readerKey = JUndefined\<rparr>"
        "'' cats''" "JObj [(''limit'', JNum 25)]"] c
    by (simp add: fld_def)
  ultimately show ?thesis
    using a b c by simp
qed

section \<open>Configuration is merged\<close>

text \<open>
  Claim C8, as amended. For every call of \<open>configure\<close> with an options object, a
  supplied \<open>endpoint\<close> or \<open>readerKey\<close> that is truthy replaces the stored one, whatever
  its type (nothing else is checked), and a field that is absent, or supplied with a
  falsy value such as the empty string, leaves the stored one unchanged.
\<close>

theorem configure_merge:
  assumes "options \<noteq> JUndefined" and "options \<noteq> JNull"
  shows "configure this options =
           Inr \<lparr>endpoint = (if truthy (fld options ''endpoint'') then fld options ''endpoint''
                             else endpoint this),
                readerKey = (if truthy (fld options ''readerKey'') then fld options ''readerKey''
                             else readerKey this)\<rparr>"
  using assms by (simp add: configure_def bnd_def get_prop_fld js_or_def Let_def)

theorem configure_merge_witness:
  "configure \<lparr>endpoint = JStr ''http://a'', readerKey = JStr ''k''\<rparr>
      (JObj [(''endpoint'', JStr ''http://b'')])
     = Inr \<lparr>endpoint = JStr ''http://b'', readerKey = JStr ''k''\<rparr>
   \<and> configure \<lparr>endpoint = JStr ''http://a'', readerKey = JStr ''k''\<rparr>
      (JObj [(''readerKey'', JNum 5)])
     = Inr \<lparr>endpoint = JStr ''http://a'', readerKey = JNum 5\<rparr>"
  using configure_merge[of "JObj [(''endpoint'', JStr ''http://b'')]"
      "\<lparr>endpoint = JStr ''http://a'', readerKey = JStr ''k''\<rparr>"]
    configure_merge[of "JObj [(''readerKey'', JNum 5)]"
      "\<lparr>endpoint = JStr ''http://a'', readerKey = JStr ''k''\<rparr>"]
  by (simp add: fld_def)

text \<open>
  The claim as stated fails on a supplied field that is empty: the options supply an
  empty endpoint and an empty reader key, and the stored ones stay.
\<close>

theorem configure_empty_counterexample:
  "configure \<lparr>endpoint = JStr ''http://a'', readerKey = JStr ''k''\<rparr>
      (JObj [(''endpoint'', JStr ''''), (''readerKey'', JStr '''')])
     = Inr \<lparr>endpoint = JStr ''http://a'', readerKey = JStr ''k''\<rparr>
   \<and> JStr ''http://a'' \<noteq> JStr ''''"
  by (simp add: configure_def bnd_def js_or_def)

section \<open>The binding: effects of its handlers\<close>

lemma doSearch_frame:
  "timers (doSearch b q u s) = timers s"
  "debounceTimer (doSearch b q u s) = debounceTimer s"
  "next_timer (doSearch b q u s) = next_timer s"
  "input_value (doSearch b q u s) = input_value s"
  "self (doSearch b q u s) = self s"
  "win (doSearch b q u s) = (if u then updateUrl q (win s) else win s)"
  by (simp_all add: doSearch_def Let_def split: sum.splits)

lemma doSearch_logs:
  assumes "truthy (b_options b)"
  shows "searches (doSearch b q u s) = searches s @ [(q, limit_options b)]"
    and "network (doSearch b q u s)
           = network s @ snd (search (parses_url (win s)) (self s) q (limit_options b))"
  using assms falsy_fld[of "b_options b" "''limit''"]
  by (simp_all add: doSearch_def Let_def truthy_get_prop limit_options_def js_or_def
      updateUrl_def replaceState_def)

lemma one_timer_iff:
  "one_timer s \<longleftrightarrow>
     timers s = [] \<or> (\<exists>i r q. timers s = [(i, r, q)] \<and> debounceTimer s = Some i \<and> i < next_timer s)"
  by (auto simp add: one_timer_def split: list.splits)

lemma clearTimeout_one_timer:
  "one_timer s \<Longrightarrow> clearTimeout (debounceTimer s) s = s\<lparr>timers := []\<rparr>"
  by (cases "debounceTimer s") (auto simp add: one_timer_iff clearTimeout_def)

lemma num_lt_JNum: "num_lt n (JNum m) = Inr (n < m)"
  by (simp add: num_lt_def bnd_def)

lemma num_ge_JNum: "num_ge n (JNum m) = Inr (m \<le> n)"
  by (simp add: num_ge_def bnd_def)

lemma on_input_eq:
  assumes "bound_with b m d" and "one_timer s"
  shows "on_input b v s =
           (if of_nat (length (trim v)) < m
            then s\<lparr>input_value := v, timers := [],
                   resultContainer := (resultContainer s)\<lparr>innerHTML := [], display := ''none''\<rparr>\<rparr>
            else s\<lparr>input_value := v, timers := [(next_timer s, d, trim v)],
                   debounceTimer := Some (next_timer s), next_timer := Suc (next_timer s)\<rparr>)"
proof -
  have o: "one_timer (s\<lparr>input_value := v\<rparr>)"
    using assms(2) by (simp add: one_timer_iff)
  show ?thesis
    using assms(1) clearTimeout_one_timer[OF o]
    by (simp add: on_input_def Let_def bound_with_def num_lt_JNum setTimeout_def)
qed

lemma elapse_no_timer: "timers s = [] \<Longrightarrow> elapse b ms s = s"
  by (cases s) (simp add: elapse_def)

lemma elapse_waiting:
  "timers s = [(i, r, q)] \<Longrightarrow> \<not> r \<le> ms \<Longrightarrow> elapse b ms s = s\<lparr>timers := [(i, r - ms, q)]\<rparr>"
  by (simp add: elapse_def)

lemma elapse_due:
  "timers s = [(i, r, q)] \<Longrightarrow> r \<le> ms \<Longrightarrow> elapse b ms s = doSearch b q False (s\<lparr>timers := []\<rparr>)"
  by (simp add: elapse_def)


lemma one_timer_frame:
  "timers s' = timers s \<Longrightarrow> debounceTimer s' = debounceTimer s \<Longrightarrow> next_timer s' = next_timer s \<Longrightarrow>
   one_timer s' = one_timer s"
  by (simp add: one_timer_iff)

lemma one_timer_doSearch: "one_timer (doSearch b q u s) = one_timer s"
  by (rule one_timer_frame) (simp_all add: doSearch_frame)

lemma one_timer_cleared: "one_timer (s\<lparr>timers := []\<rparr>)"
  by (simp add: one_timer_iff)

lemma one_timer_on_input: "one_timer s \<Longrightarrow> one_timer (on_input b v s)"
proof -
  assume a: "one_timer s"
  have o: "one_timer (s\<lparr>input_value := v\<rparr>)"
    using a by (simp add: one_timer_iff)
  show ?thesis
    using clearTimeout_one_timer[OF o]
    by (auto simp add: on_input_def Let_def setTimeout_def one_timer_iff
        split: sum.splits bool.splits)
qed

lemma one_timer_on_keydown: "one_timer s \<Longrightarrow> one_timer (on_keydown b key s)"
  by (auto simp add: on_keydown_def Let_def one_timer_doSearch clearTimeout_one_timer
      one_timer_cleared split: sum.splits bool.splits)

lemma one_timer_elapse: "one_timer s \<Longrightarrow> one_timer (elapse b ms s)"
proof -
  assume a: "one_timer s"
  consider "timers s = []"
    | i r q where "timers s = [(i, r, q)]" and "debounceTimer s = Some i" and "i < next_timer s"
    using a by (auto simp add: one_timer_iff)
  then show ?thesis
  proof cases
    case 1
    then show ?thesis using a by (simp add: elapse_no_timer)
  next
    case 2
    show ?thesis
    proof (cases "r \<le> ms")
      case True
      then show ?thesis
        using 2 by (simp add: elapse_due one_timer_doSearch one_timer_cleared)
    next
      case False
      then have "elapse b ms s = s\<lparr>timers := [(i, r - ms, q)]\<rparr>"
        using 2 by (simp add: elapse_waiting)
      then show ?thesis using 2 by (simp add: one_timer_iff)
    qed
  qed
qed

lemma one_timer_container: "one_timer (s\<lparr>resultContainer := c\<rparr>) = one_timer s"
  by (simp add: one_timer_iff)

lemma one_timer_step: "one_timer s \<Longrightarrow> one_timer (step b e s)"
  by (cases e)
    (simp_all add: one_timer_on_input one_timer_on_keydown one_timer_elapse on_click_def
      one_timer_container)

lemma one_timer_run: "one_timer s \<Longrightarrow> one_timer (run b es s)"
  by (induction es arbitrary: s) (simp_all add: one_timer_step)

lemma one_timer_length: "one_timer s \<Longrightarrow> length (timers s) \<le> 1"
  by (auto simp add: one_timer_iff)

text \<open>
  Every state a binding reaches from \<open>bindSearchBox\<close> has at most one live timer, and
  the options of the binding are an object: the hypotheses \<open>one_timer\<close> and
  \<open>truthy (b_options b)\<close> of the statements below hold wherever the handlers run.
\<close>

lemma bindSearchBox_invariant:
  assumes "bindSearchBox this w i c options = Inr (Some (b, s))"
  shows "one_timer (run b es s) \<and> truthy (b_options b)"
proof -
  have "timers s = [] \<and> truthy (b_options b)"
    using assms
    by (auto simp add: bindSearchBox_def Let_def bnd_def js_or_def doSearch_frame
        split: option.splits sum.splits if_splits)
  then have "one_timer s" and "truthy (b_options b)"
    by (simp_all add: one_timer_def)
  then show ?thesis by (simp add: one_timer_run)
qed

lemma burst_issues_nothing:
  assumes "bound_with b m d" and "one_timer s" and "\<forall>p \<in> set burst. snd p < d"
  shows "searches (run b (typing burst) s) = searches s
       \<and> network (run b (typing burst) s) = network s"
  using assms(2,3)
proof (induction burst arbitrary: s)
  case Nil
  then show ?case by simp
next
  case (Cons p burst)
  obtain v g where p: "p = (v, g)" by (cases p)
  from Cons.prems have g: "g < d" by (simp add: p)
  let ?s1 = "on_input b v s"
  let ?s2 = "elapse b g ?s1"
  have s1: "one_timer ?s1" using Cons.prems(1) by (rule one_timer_on_input)
  have s2: "one_timer ?s2" using s1 by (rule one_timer_elapse)
  have logs: "searches ?s2 = searches s \<and> network ?s2 = network s"
    using g by (simp add: on_input_eq[OF assms(1) Cons.prems(1)] elapse_no_timer elapse_waiting)
  have "searches (run b (typing burst) ?s2) = searches ?s2
      \<and> network (run b (typing burst) ?s2) = network ?s2"
    using Cons.IH[OF s2] Cons.prems(2) by simp
  then show ?case using logs by (simp add: p)
qed

lemma run_append: "run b (es @ fs) s = run b fs (run b es s)"
  by (induction es arbitrary: s) simp_all

lemma typing_append: "typing (xs @ ys) = typing xs @ typing ys"
  by (induction xs) auto

lemma last_input_fires:
  assumes "bound_with b m d" and "one_timer s" and "d \<le> quiet"
  shows "searches (run b [Input v, Elapse quiet] s) =
           searches s @ (if of_nat (length (trim v)) < m then [] else [(trim v, limit_options b)])
       \<and> timers (run b [Input v, Elapse quiet] s) = []"
  using assms(3) assms(1)
  by (simp add: on_input_eq[OF assms(1,2)] elapse_no_timer elapse_due doSearch_logs doSearch_frame
      bound_with_def)

section \<open>The example page\<close>

lemma example_bound:
  "bindSearchBox example_config example_window (Some []) (Some example_container) JUndefined =
     Inr (Some (\<lparr>b_options = JObj [], b_minLength = JNum 2, b_debounceMs = JNum 300\<rparr>,
                \<lparr>self = example_config, win = example_window, input_value = [],
                 resultContainer = example_container, debounceTimer = None, timers = [],
                 next_timer = 0, searches = [], network = []\<rparr>))"
  by (simp add: bindSearchBox_def js_or_def bnd_def getQueryFromUrl_def params_get_def
      example_window_def)

lemma example_bound_with:
  "bound_with \<lparr>b_options = JObj [], b_minLength = JNum 2, b_debounceMs = JNum 300\<rparr> 2 300"
  by (simp add: bound_with_def timeout_ms_def bnd_def)

lemma example_one_timer:
  "one_timer \<lparr>self = example_config, win = example_window, input_value = [],
               resultContainer = example_container, debounceTimer = None, timers = [],
               next_timer = 0, searches = [], network = []\<rparr>"
  by (simp add: one_timer_def)

lemma trim_cats: "trim '' cats '' = ''cats''"
  by (simp add: trim_def is_space_def)

lemma trim_c: "trim ''c'' = ''c''"
  by (simp add: trim_def is_space_def)

lemma trim_birds: "trim '' birds'' = ''birds''"
  by (simp add: trim_def is_space_def)

section \<open>Debounce\<close>

lemma on_input_short:
  assumes "b_minLength b = JNum m" and "one_timer s" and "of_nat (length (trim v)) < m"
  shows "on_input b v s =
           s\<lparr>input_value := v, timers := [],
             resultContainer := (resultContainer s)\<lparr>innerHTML := [], display := ''none''\<rparr>\<rparr>"
proof -
  have o: "one_timer (s\<lparr>input_value := v\<rparr>)"
    using assms(2) by (simp add: one_timer_iff)
  show ?thesis
    using assms(1,3) clearTimeout_one_timer[OF o]
    by (simp add: on_input_def Let_def num_lt_JNum)
qed

lemma timers_on_input:
  assumes "one_timer s" and "t \<in> set (timers (on_input b v s))"
  shows "fst t = next_timer s"
proof -
  have o: "one_timer (s\<lparr>input_value := v\<rparr>)"
    using assms(1) by (simp add: one_timer_iff)
  show ?thesis
    using assms(2) clearTimeout_one_timer[OF o]
    by (auto simp add: on_input_def Let_def setTimeout_def split: sum.splits bool.splits)
qed

lemma timers_below_next: "one_timer s \<Longrightarrow> t \<in> set (timers s) \<Longrightarrow> fst t < next_timer s"
  by (auto simp add: one_timer_iff)

lemma typing_searches:
  assumes "bound_with b m d" and "one_timer s" and "\<forall>p \<in> set burst. snd p < d" and "d \<le> quiet"
  shows "searches (run b (typing (burst @ [(v, quiet)])) s) =
           searches s @ (if of_nat (length (trim v)) < m then [] else [(trim v, limit_options b)])
       \<and> timers (run b (typing (burst @ [(v, quiet)])) s) = []"
proof -
  let ?s1 = "run b (typing burst) s"
  have o: "one_timer ?s1" using assms(2) by (rule one_timer_run)
  have q: "searches ?s1 = searches s"
    using burst_issues_nothing[OF assms(1,2,3)] by simp
  have r: "run b (typing (burst @ [(v, quiet)])) s = run b [Input v, Elapse quiet] ?s1"
    by (simp add: typing_append run_append)
  show ?thesis
    using last_input_fires[OF assms(1) o assms(4), of v] q unfolding r by simp
qed

text \<open>
  Claim C3, as amended. Take input events on a bound input, each less than the
  debounce delay after the one before, and then a pause of at least that delay. If the
  trimmed value at the last event has at least \<open>minLength\<close> characters, exactly one
  search is issued, with that trimmed value as its query; if it is shorter, none is
  issued. After the pause no timer is pending. Whatever events arrive, at most one
  timer of the binding is live, and a timer that is live after an input event is never
  one that was pending before it: the event has cancelled that one.
\<close>

theorem debounce_trailing_edge:
  assumes "bound_with b m d" and "one_timer s" and "\<forall>p \<in> set burst. snd p < d" and "d \<le> quiet"
  shows "searches (run b (typing (burst @ [(v, quiet)])) s) =
           searches s @ (if of_nat (length (trim v)) < m then [] else [(trim v, limit_options b)])
       \<and> timers (run b (typing (burst @ [(v, quiet)])) s) = []
       \<and> (\<forall>es. length (timers (run b es s)) \<le> 1)
       \<and> (\<forall>v' t. t \<in> set (timers (step b (Input v') s)) \<longrightarrow> fst t \<notin> fst ` set (timers s))"
proof (intro conjI allI impI)
  show "searches (run b (typing (burst @ [(v, quiet)])) s) =
      searches s @ (if of_nat (length (trim v)) < m then [] else [(trim v, limit_options b)])"
    using typing_searches[OF assms] by simp
  show "timers (run b (typing (burst @ [(v, quiet)])) s) = []"
    using typing_searches[OF assms] by simp
next
  fix es show "length (timers (run b es s)) \<le> 1"
    using assms(2) by (intro one_timer_length one_timer_run)
next
  fix v' t assume "t \<in> set (timers (step b (Input v') s))"
  then have "fst t = next_timer s"
    using timers_on_input[OF assms(2)] by simp
  then show "fst t \<notin> fst ` set (timers s)"
    using timers_below_next[OF assms(2)] by force
qed

text \<open>Five input events 100 ms apart on a freshly bound input, and one search for the last value, trimmed.\<close>

theorem debounce_trailing_edge_witness:
  "(case bindSearchBox example_config example_window (Some []) (Some example_container) JUndefined of
      Inr (Some (b, s)) \<Rightarrow>
        searches (run b (typing [(''c'', 100), (''ca'', 100), (''cat'', 100), (''cats'', 100),
                                 ('' cats '', 300)]) s)
          = [(''cats'', JObj [(''limit'', JNum 10)])]
    | _ \<Rightarrow> False)"
proof -
  have h3: "\<forall>p \<in> set [(''c'', 100), (''ca'', 100), (''cat'', 100), (''cats'', 100::nat)]. snd p < 300"
    by simp
  have "searches (run \<lparr>b_options = JObj [], b_minLength = JNum 2, b_debounceMs = JNum 300\<rparr>
          (typing ([(''c'', 100), (''ca'', 100), (''cat'', 100), (''cats'', 100)]
          @ [('' cats '', 300)]))
          \<lparr>self = example_config, win = example_window, input_value = [],
               resultContainer = example_container, debounceTimer = None, timers = [],
               next_timer = 0, searches = [], network = []\<rparr>)
        = [(''cats'', JObj [(''limit'', JNum 10)])]"
    using debounce_trailing_edge[OF example_bound_with example_one_timer h3, of 300 "'' cats ''"]
    by (simp add: trim_cats limit_options_def fld_def del: run.simps typing.simps)
  then show ?thesis
    by (simp add: example_bound del: run.simps typing.simps)
qed

text \<open>
  The claim as stated fails when the last value is too short: five input events
  100 ms apart, the last one leaving a single character, issue no search at all.
\<close>

theorem debounce_short_value_counterexample:
  "(case bindSearchBox example_config example_window (Some []) (Some example_container) JUndefined of
      Inr (Some (b, s)) \<Rightarrow>
        searches (run b (typing [(''c'', 100), (''ca'', 100), (''cat'', 100), (''ca'', 100),
                                 (''c'', 300)]) s) = []
    | _ \<Rightarrow> False)"
proof -
  have h3: "\<forall>p \<in> set [(''c'', 100), (''ca'', 100), (''cat'', 100), (''ca'', 100::nat)]. snd p < 300"
    by simp
  have "searches (run \<lparr>b_options = JObj [], b_minLength = JNum 2, b_debounceMs = JNum 300\<rparr>
          (typing ([(''c'', 100), (''ca'', 100), (''cat'', 100), (''ca'', 100)] @ [(''c'', 300)]))
          \<lparr>self = example_config, win = example_window, input_value = [],
               resultContainer = example_container, debounceTimer = None, timers = [],
               next_timer = 0, searches = [], network = []\<rparr>) = []"
    using typing_searches[OF example_bound_with example_one_timer h3, of 300 "''c''"]
    by (simp add: trim_c del: run.simps typing.simps)
  then show ?thesis
    by (simp add: example_bound del: run.simps typing.simps)
qed

section \<open>A query that is too short\<close>

text \<open>
  Claim C4. An input event whose trimmed value is shorter than \<open>minLength\<close> cancels
  the pending debounce timer, empties the result container and hides it, and issues
  neither a search nor a request, at once or at any later time.
\<close>

theorem short_query_no_request:
  assumes "b_minLength b = JNum m" and "one_timer s" and "of_nat (length (trim v)) < m"
  shows "timers (step b (Input v) s) = []
       \<and> resultContainer (step b (Input v) s) = (resultContainer s)\<lparr>innerHTML := [], display := ''none''\<rparr>
       \<and> network (step b (Input v) s) = network s
       \<and> searches (step b (Input v) s) = searches s
       \<and> (\<forall>ms. network (run b [Input v, Elapse ms] s) = network s
              \<and> searches (run b [Input v, Elapse ms] s) = searches s)"
  by (simp add: on_input_short[OF assms] elapse_no_timer)

text \<open>A long value with its timer pending, then a short one.\<close>

theorem short_query_no_request_witness:
  "(case bindSearchBox example_config example_window (Some []) (Some example_container) JUndefined of
      Inr (Some (b, s)) \<Rightarrow>
        timers (run b [Input ''cats'', Elapse 100, Input '' c ''] s) = []
        \<and> resultContainer (run b [Input ''cats'', Elapse 100, Input '' c ''] s)
            = \<lparr>innerHTML = [], display = ''none''\<rparr>
        \<and> network (run b [Input ''cats'', Elapse 100, Input '' c '', Elapse 1000] s) = []
    | _ \<Rightarrow> False)"
proof -
  let ?b = "\<lparr>b_options = JObj [], b_minLength = JNum 2, b_debounceMs = JNum 300\<rparr>"
  let ?s = "\<lparr>self = example_config, win = example_window, input_value = [],
             resultContainer = example_container, debounceTimer = None, timers = [],
             next_timer = 0, searches = [], network = []\<rparr>"
  let ?s1 = "run ?b [Input ''cats'', Elapse 100] ?s"
  have o: "one_timer ?s1"
    using example_one_timer by (rule one_timer_run)
  have t: "of_nat (length (trim '' c '')) < (2::rat)"
    by (simp add: trim_def is_space_def)
  have n: "network ?s1 = [] \<and> resultContainer ?s1 = example_container"
    by (simp add: on_input_eq[OF example_bound_with example_one_timer] elapse_waiting
        trim_def is_space_def)
  have r: "run ?b [Input ''cats'', Elapse 100, Input '' c ''] ?s = step ?b (Input '' c '') ?s1"
    "run ?b [Input ''cats'', Elapse 100, Input '' c '', Elapse 1000] ?s
       = run ?b [Input '' c '', Elapse 1000] ?s1"
    by simp_all
  have "timers (step ?b (Input '' c '') ?s1) = []
        \<and> resultContainer (step ?b (Input '' c '') ?s1) = \<lparr>innerHTML = [], display = ''none''\<rparr>
        \<and> network (run ?b [Input '' c '', Elapse 1000] ?s1) = []"
    using short_query_no_request[of ?b 2 ?s1 "'' c ''", OF _ o t] n
    by (simp add: example_container_def del: run.simps step.simps)
  then show ?thesis
    unfolding example_bound r[symmetric] by (simp del: run.simps step.simps)
qed

section \<open>The Enter key and the query in the URL\<close>

lemma params_get_set: "params_get k (params_set k v ps) = Some v"
  by (induction ps) (auto simp add: params_get_def)

lemma params_get_delete: "params_get k (params_delete k ps) = None"
  by (induction ps) (auto simp add: params_get_def params_delete_def)

lemma updateUrl_eq:
  "params_get ''q'' (loc_params (href (updateUrl q w))) = (if q = [] then None else Some q)"
  "back_entries (updateUrl q w) = back_entries w"
  "loc_base (href (updateUrl q w)) = loc_base (href w)"
  by (simp_all add: updateUrl_def replaceState_def Let_def params_get_set params_get_delete)

lemma on_keydown_enter:
  assumes "bound_with b m d" and "one_timer s" and "m \<le> of_nat (length (trim (input_value s)))"
  shows "on_keydown b ''Enter'' s = doSearch b (trim (input_value s)) True (s\<lparr>timers := []\<rparr>)"
  using assms by (simp add: on_keydown_def Let_def bound_with_def num_ge_JNum clearTimeout_one_timer)

lemma on_keydown_short:
  assumes "b_minLength b = JNum m" and "of_nat (length (trim (input_value s))) < m"
  shows "on_keydown b ''Enter'' s = s"
  using assms by (simp add: on_keydown_def Let_def num_ge_JNum)

lemma bindSearchBox_url_query:
  assumes "params_get ''q'' (loc_params (href w)) = Some u" and "u \<noteq> []"
    and "js_or (fld (js_or options (JObj [])) ''minLength'') (JNum 2) = JNum m"
  shows "\<exists>b s. bindSearchBox this w (Some v) (Some c) options = Inr (Some (b, s))
           \<and> b_minLength b = JNum m \<and> input_value s = u \<and> win s = w
           \<and> searches s = (if m \<le> of_nat (length u) then [(u, limit_options b)] else [])"
proof -
  have t: "truthy (js_or options (JObj []))" by (simp add: js_or_def)
  have q: "getQueryFromUrl w = u"
    using assms(1,2) by (simp add: getQueryFromUrl_def)
  show ?thesis
    using assms(2,3) t
    by (simp add: bindSearchBox_def Let_def truthy_get_prop[OF t] bnd_def q num_ge_JNum
        doSearch_logs doSearch_frame)
qed

text \<open>
  Claim C7, as amended. In the variant that keeps the query in the URL: pressing
  Enter while the trimmed value has at least \<open>minLength\<close> characters cancels the
  pending debounce, runs the search at once, and writes the trimmed value into the
  parameter \<open>q\<close> of the current history entry, adding no entry; pressing Enter on a
  shorter value changes nothing. On initialization with a non-empty \<open>q\<close> in the
  URL, the input takes that value, and a search for it runs if it has at least
  \<open>minLength\<close> characters; the URL is not written.
\<close>

theorem enter_key_and_initial_query:
  "(bound_with b m d \<and> one_timer s \<and> m \<le> of_nat (length (trim (input_value s))) \<longrightarrow>
      timers (step b (Keydown ''Enter'') s) = []
    \<and> searches (step b (Keydown ''Enter'') s) = searches s @ [(trim (input_value s), limit_options b)]
    \<and> network (step b (Keydown ''Enter'') s)
        = network s @ snd (search (parses_url (win s)) (self s) (trim (input_value s))
                             (limit_options b))
    \<and> params_get ''q'' (loc_params (href (win (step b (Keydown ''Enter'') s))))
        = (if trim (input_value s) = [] then None else Some (trim (input_value s)))
    \<and> back_entries (win (step b (Keydown ''Enter'') s)) = back_entries (win s)
    \<and> loc_base (href (win (step b (Keydown ''Enter'') s))) = loc_base (href (win s)))
   \<and> (b_minLength b = JNum m \<and> of_nat (length (trim (input_value s))) < m \<longrightarrow>
        step b (Keydown ''Enter'') s = s)
   \<and> (params_get ''q'' (loc_params (href w)) = Some u \<and> u \<noteq> [] \<and>
       js_or (fld (js_or options (JObj [])) ''minLength'') (JNum 2) = JNum m \<longrightarrow>
        (\<exists>b' s'. bindSearchBox this w (Some v) (Some c) options = Inr (Some (b', s'))
           \<and> b_minLength b' = JNum m \<and> input_value s' = u \<and> win s' = w
           \<and> searches s' = (if m \<le> of_nat (length u) then [(u, limit_options b')] else [])))"
proof (intro conjI impI)
  assume a: "bound_with b m d \<and> one_timer s \<and> m \<le> of_nat (length (trim (input_value s)))"
  then have e: "step b (Keydown ''Enter'') s = doSearch b (trim (input_value s)) True (s\<lparr>timers := []\<rparr>)"
    using on_keydown_enter[of b m d s] by simp
  have t: "truthy (b_options b)" using a by (simp add: bound_with_def)
  show "timers (step b (Keydown ''Enter'') s) = []"
    unfolding e by (simp add: doSearch_frame)
  show "searches (step b (Keydown ''Enter'') s) = searches s @ [(trim (input_value s), limit_options b)]"
    unfolding e by (simp add: doSearch_logs[OF t])
  show "network (step b (Keydown ''Enter'') s)
        = network s @ snd (search (parses_url (win s)) (self s) (trim (input_value s))
                             (limit_options b))"
    unfolding e by (simp add: doSearch_logs[OF t])
  show "params_get ''q'' (loc_params (href (win (step b (Keydown ''Enter'') s))))
        = (if trim (input_value s) = [] then None else Some (trim (input_value s)))"
    unfolding e by (simp add: doSearch_frame updateUrl_eq)
  show "back_entries (win (step b (Keydown ''Enter'') s)) = back_entries (win s)"
    unfolding e by (simp add: doSearch_frame updateUrl_eq)
  show "loc_base (href (win (step b (Keydown ''Enter'') s))) = loc_base (href (win s))"
    unfolding e by (simp add: doSearch_frame updateUrl_eq)
next
  assume "b_minLength b = JNum m \<and> of_nat (length (trim (input_value s))) < m"
  then show "step b (Keydown ''Enter'') s = s"
    using on_keydown_short[of b m s] by simp
next
  assume "params_get ''q'' (loc_params (href w)) = Some u \<and> u \<noteq> [] \<and>
       js_or (fld (js_or options (JObj [])) ''minLength'') (JNum 2) = JNum m"
  then show "\<exists>b' s'. bindSearchBox this w (Some v) (Some c) options = Inr (Some (b', s'))
           \<and> b_minLength b' = JNum m \<and> input_value s' = u \<and> win s' = w
           \<and> searches s' = (if m \<le> of_nat (length u) then [(u, limit_options b')] else [])"
    using bindSearchBox_url_query by blast
qed


text \<open>Enter on a typed value, and a binding on a page whose URL has a query.\<close>

theorem enter_key_and_initial_query_witness:
  "(case bindSearchBox example_config example_window (Some []) (Some example_container) JUndefined of
      Inr (Some (b, s)) \<Rightarrow>
        searches (run b [Input '' birds'', Keydown ''Enter''] s) = [(''birds'', JObj [(''limit'', JNum 10)])]
        \<and> timers (run b [Input '' birds'', Keydown ''Enter''] s) = []
        \<and> params_get ''q'' (loc_params (href (win (run b [Input '' birds'', Keydown ''Enter''] s))))
            = Some ''birds''
        \<and> back_entries (win (run b [Input '' birds'', Keydown ''Enter''] s)) = []
    | _ \<Rightarrow> False)
   \<and> (\<exists>b s. bindSearchBox example_config
               (example_window\<lparr>href :=
                  \<lparr>loc_base = ''https://site.example/'', loc_params = [(''q'', ''cats'')]\<rparr>\<rparr>)
               (Some []) (Some example_container) JUndefined
             = Inr (Some (b, s))
           \<and> input_value s = ''cats''
           \<and> searches s = [(''cats'', limit_options b)]
           \<and> win s = example_window\<lparr>href :=
                  \<lparr>loc_base = ''https://site.example/'', loc_params = [(''q'', ''cats'')]\<rparr>\<rparr>)"
proof -
  let ?b = "\<lparr>b_options = JObj [], b_minLength = JNum 2, b_debounceMs = JNum 300\<rparr>"
  let ?s = "\<lparr>self = example_config, win = example_window, input_value = [],
             resultContainer = example_container, debounceTimer = None, timers = [],
             next_timer = 0, searches = [], network = []\<rparr>"
  let ?s1 = "step ?b (Input '' birds'') ?s"
  let ?w = "example_window\<lparr>href :=
              \<lparr>loc_base = ''https://site.example/'', loc_params = [(''q'', ''cats'')]\<rparr>\<rparr>"
  have o: "one_timer ?s1" using example_one_timer by (rule one_timer_step)
  have s1: "input_value ?s1 = '' birds'' \<and> searches ?s1 = [] \<and> win ?s1 = example_window"
    by (simp add: on_input_eq[OF example_bound_with example_one_timer])
  have k: "searches (step ?b (Keydown ''Enter'') ?s1) = [(''birds'', JObj [(''limit'', JNum 10)])]
      \<and> timers (step ?b (Keydown ''Enter'') ?s1) = []
      \<and> params_get ''q'' (loc_params (href (win (step ?b (Keydown ''Enter'') ?s1)))) = Some ''birds''
      \<and> back_entries (win (step ?b (Keydown ''Enter'') ?s1)) = []
      \<and> loc_base (href (win (step ?b (Keydown ''Enter'') ?s1))) = ''https://site.example/''"
    using enter_key_and_initial_query[of ?b 2 300 ?s1] example_bound_with o s1
    by (simp add: trim_birds limit_options_def fld_def example_window_def del: step.simps)
  have i: "\<exists>b s. bindSearchBox example_config ?w (Some []) (Some example_container) JUndefined
             = Inr (Some (b, s))
           \<and> input_value s = ''cats''
           \<and> searches s = [(''cats'', limit_options b)]
           \<and> win s = ?w"
    using enter_key_and_initial_query[of _ 2 _ _ ?w "''cats''" JUndefined example_config "[]" example_container]
    by (simp add: params_get_def js_or_def fld_def) blast
  show ?thesis
    using k i unfolding example_bound
    by (simp del: step.simps)
qed

text \<open>
  The claim as stated fails on a value that is too short: Enter on a single character
  runs no search and writes nothing into the URL.
\<close>

theorem enter_short_value_counterexample:
  "(case bindSearchBox example_config example_window (Some []) (Some example_container) JUndefined of
      Inr (Some (b, s)) \<Rightarrow>
        searches (run b [Input ''a'', Keydown ''Enter''] s) = []
        \<and> network (run b [Input ''a'', Keydown ''Enter''] s) = []
        \<and> params_get ''q'' (loc_params (href (win (run b [Input ''a'', Keydown ''Enter''] s)))) = None
    | _ \<Rightarrow> False)"
proof -
  let ?b = "\<lparr>b_options = JObj [], b_minLength = JNum 2, b_debounceMs = JNum 300\<rparr>"
  let ?s = "\<lparr>self = example_config, win = example_window, input_value = [],
             resultContainer = example_container, debounceTimer = None, timers = [],
             next_timer = 0, searches = [], network = []\<rparr>"
  let ?s1 = "step ?b (Input ''a'') ?s"
  have t: "trim ''a'' = ''a''" by (simp add: trim_def is_space_def)
  have s1: "input_value ?s1 = ''a'' \<and> searches ?s1 = [] \<and> network ?s1 = [] \<and> win ?s1 = example_window"
    by (simp add: on_input_eq[OF example_bound_with example_one_timer])
  have k: "step ?b (Keydown ''Enter'') ?s1 = ?s1"
    using on_keydown_short[of ?b 2 ?s1] s1 by (simp add: t del: step.simps(1))
  show ?thesis
    unfolding example_bound using s1 k
    by (simp add: params_get_def example_window_def del: step.simps)
qed

end
